theory Spec2Isabelle
  imports Main
begin

section \<open>Python values, strings and exceptions\<close>

text \<open>
  A Python \<open>str\<close> is modelled as a \<open>string\<close>: each \<open>char\<close> stands for the code point
  of the same number, so the model covers the strings whose code points lie below 256.
  The JSON-shaped payloads the two backends return are values of \<open>pyval\<close>; a \<open>dict\<close> is
  an association list read with \<open>map_of\<close>.
\<close>

datatype pyval =
    PyNone
  | Str string
  | PList "pyval list"
  | Dict "(string \<times> pyval) list"

text \<open>
  Exceptions are values. \<open>ValueError\<close> carries the message where the source raises it
  itself (\<open>''No results found''\<close>) and the name of the library call where a library
  raises it; \<open>KeyError\<close> carries the missing key; \<open>UpstreamError\<close> stands for
  any exception an external service call raises.
\<close>

datatype py_exn =
    ValueError string
  | OverflowError
  | KeyError string
  | TypeError
  | AttributeError
  | OSError
  | UpstreamError string

definition bind_exn :: "py_exn + 'a \<Rightarrow> ('a \<Rightarrow> py_exn + 'b) \<Rightarrow> py_exn + 'b" where
  "bind_exn r f = (case r of Inl e \<Rightarrow> Inl e | Inr x \<Rightarrow> f x)"

subsection \<open>String operations of the Python library\<close>

text \<open>\<open>str.isspace\<close> on one character, for code points below 256.\<close>

definition is_space :: "char \<Rightarrow> bool" where
  "is_space c \<longleftrightarrow> c \<in> set [CHR 0x09, CHR 0x0A, CHR 0x0B, CHR 0x0C, CHR 0x0D,
     CHR 0x1C, CHR 0x1D, CHR 0x1E, CHR 0x1F, CHR 0x20, CHR 0x85, CHR 0xA0]"

text \<open>
  \<open>str.split()\<close> with no argument: the maximal runs of non-whitespace characters, in
  order. \<open>cur\<close> is the token being read.
\<close>

fun split_from :: "string \<Rightarrow> string \<Rightarrow> string list" where
  "split_from cur [] = (if cur = [] then [] else [cur])"
| "split_from cur (c # cs) =
     (if is_space c then (if cur = [] then split_from [] cs else cur # split_from [] cs)
      else split_from (cur @ [c]) cs)"

definition split :: "string \<Rightarrow> string list" where
  "split s = split_from [] s"

text \<open>\<open>str.lower()\<close>, one character at a time, for code points below 256.\<close>

definition lower_char :: "char \<Rightarrow> char" where
  "lower_char c =
     (let n = (of_char c :: nat)
      in if (65 \<le> n \<and> n \<le> 90) \<or> (192 \<le> n \<and> n \<le> 222 \<and> n \<noteq> 215)
         then char_of (n + 32) else c)"

definition lower :: "string \<Rightarrow> string" where
  "lower s = map lower_char s"

text \<open>\<open>sub in s\<close> for two strings: \<open>sub\<close> occurs in \<open>s\<close> as a contiguous block.\<close>

fun starts_with :: "string \<Rightarrow> string \<Rightarrow> bool" where
  "starts_with s [] = True"
| "starts_with [] (p # ps) = False"
| "starts_with (c # cs) (p # ps) = (c = p \<and> starts_with cs ps)"

fun str_in :: "string \<Rightarrow> string \<Rightarrow> bool" where
  "str_in sub [] = (sub = [])"
| "str_in sub (c # cs) = (starts_with (c # cs) sub \<or> str_in sub cs)"

subsection \<open>\<open>int(token)\<close>\<close>

definition is_digit :: "char \<Rightarrow> bool" where
  "is_digit c \<longleftrightarrow> c \<in> set ''0123456789''"

definition digit_value :: "char \<Rightarrow> int" where
  "digit_value c = int (of_char c) - 48"

text \<open>
  The digits after the sign: decimal digits, with single underscores allowed between two
  digits. The result is the value read and the number of digits.
\<close>

fun int_digits :: "int \<Rightarrow> nat \<Rightarrow> string \<Rightarrow> (int \<times> nat) option" where
  "int_digits acc k [] = Some (acc, k)"
| "int_digits acc k (c # cs) =
     (if is_digit c then int_digits (acc * 10 + digit_value c) (Suc k) cs
      else if c = CHR ''_'' \<and> cs \<noteq> [] \<and> is_digit (hd cs) then int_digits acc k cs
      else None)"

text \<open>
  CPython's default limit on the number of digits \<open>int\<close> converts from a string
  (\<open>sys.int_info.default_max_str_digits\<close>); a longer literal is a \<open>ValueError\<close>.
\<close>

definition int_max_str_digits :: nat where
  "int_max_str_digits = 4300"

definition int_unsigned :: "string \<Rightarrow> int option" where
  "int_unsigned s =
     (if s \<noteq> [] \<and> is_digit (hd s) then
        (case int_digits 0 0 s of
           None \<Rightarrow> None
         | Some (v, k) \<Rightarrow> if k > int_max_str_digits then None else Some v)
      else None)"

text \<open>
  \<open>int(s)\<close> in base 10 on a token of \<open>split\<close>: an optional sign, then the digits.
  \<open>None\<close> is the \<open>ValueError\<close> of an invalid literal. (\<open>int\<close> first strips surrounding
  whitespace; a token of \<open>split\<close> has none.)
\<close>

definition py_int :: "string \<Rightarrow> int option" where
  "py_int s =
     (case s of
        [] \<Rightarrow> None
      | c # cs \<Rightarrow>
          if c = CHR ''-'' then map_option uminus (int_unsigned cs)
          else if c = CHR ''+'' then int_unsigned cs
          else int_unsigned s)"

section \<open>\<open>datetime\<close> and \<open>timedelta\<close>\<close>

text \<open>
  A naive \<open>datetime\<close> is a point of the proleptic Gregorian calendar at microsecond
  resolution. It is modelled by the number of microseconds since 0001-01-01T00:00:00,
  the earliest \<open>datetime\<close>; the latest is 9999-12-31T23:59:59.999999, the last
  microsecond of day 3652059. Comparison of two datetimes is comparison of these numbers.
\<close>

type_synonym datetime = int

definition us_per_day :: int where
  "us_per_day = 86400000000"

definition max_ordinal :: int where
  "max_ordinal = 3652059"

definition datetime_ok :: "datetime \<Rightarrow> bool" where
  "datetime_ok t \<longleftrightarrow> 0 \<le> t \<and> t < max_ordinal * us_per_day"

text \<open>
  A \<open>timedelta\<close> is a number of microseconds. The constructor, with the keyword arguments
  the program uses, raises \<open>OverflowError\<close> when the normalised number of days has a
  magnitude above 999999999.
\<close>

type_synonym timedelta = int

definition timedelta :: "int \<Rightarrow> int \<Rightarrow> int \<Rightarrow> py_exn + timedelta" where
  "timedelta days hours weeks =
     (let us = ((weeks * 7 + days) * 24 + hours) * 3600000000;
          d = us div us_per_day
      in if - 999999999 \<le> d \<and> d \<le> 999999999 then Inr us else Inl OverflowError)"

text \<open>\<open>datetime - timedelta\<close>: \<open>OverflowError\<close> when the result leaves the range of dates.\<close>

definition datetime_sub :: "datetime \<Rightarrow> timedelta \<Rightarrow> py_exn + datetime" where
  "datetime_sub t td = (if datetime_ok (t - td) then Inr (t - td) else Inl OverflowError)"

section \<open>The relative-time resolver\<close>

text \<open>
  \<open>parse_relative_time\<close>, with the value \<open>datetime.now()\<close> returns as the parameter
  \<open>now\<close>. The \<open>ValueError\<close> of \<open>int\<close> is the only exception the source catches.
\<close>

definition py_not :: "pyval \<Rightarrow> bool" where
  "py_not v = (case v of PyNone \<Rightarrow> True | Str s \<Rightarrow> s = [] | PList xs \<Rightarrow> xs = []
     | Dict d \<Rightarrow> d = [])"

text \<open>\<open>'Streamed' in v\<close>: a substring of a string, an element of a list, a key of a dict.\<close>

definition py_contains :: "string \<Rightarrow> pyval \<Rightarrow> py_exn + bool" where
  "py_contains sub v =
     (case v of
        PyNone \<Rightarrow> Inl TypeError
      | Str s \<Rightarrow> Inr (str_in sub s)
      | PList xs \<Rightarrow> Inr (Str sub \<in> set xs)
      | Dict d \<Rightarrow> Inr (sub \<in> fst ` set d))"

definition relative_time :: "datetime \<Rightarrow> string \<Rightarrow> py_exn + datetime" where
  "relative_time current_time s =
     (let time_parts = split s
      in if length time_parts < 2 then Inr current_time
         else
           (case py_int (time_parts ! 0) of
              None \<Rightarrow> Inr current_time
            | Some v \<Rightarrow>
                (let unit = lower (time_parts ! 1)
                 in if str_in ''hour'' unit then
                      bind_exn (timedelta 0 v 0) (datetime_sub current_time)
                    else if str_in ''day'' unit then
                      bind_exn (timedelta v 0 0) (datetime_sub current_time)
                    else if str_in ''week'' unit then
                      bind_exn (timedelta 0 0 v) (datetime_sub current_time)
                    else if str_in ''month'' unit then
                      bind_exn (timedelta (v * 30) 0 0) (datetime_sub current_time)
                    else if str_in ''year'' unit then
                      bind_exn (timedelta (v * 365) 0 0) (datetime_sub current_time)
                    else Inr current_time)))"

definition parse_relative_time :: "datetime \<Rightarrow> pyval \<Rightarrow> py_exn + datetime" where
  "parse_relative_time now time_str =
     (if py_not time_str then Inr now
      else
        bind_exn (py_contains ''Streamed'' time_str) (\<lambda>streamed.
          if streamed then Inr now
          else
            (case time_str of
               Str s \<Rightarrow> relative_time now s
             | _ \<Rightarrow> Inl AttributeError)))"

section \<open>Dictionary access\<close>

text \<open>\<open>v[k]\<close>: \<open>KeyError\<close> for a missing key, \<open>TypeError\<close> when \<open>v\<close> is no dict.\<close>

definition subscript :: "pyval \<Rightarrow> string \<Rightarrow> py_exn + pyval" where
  "subscript v k =
     (case v of
        Dict d \<Rightarrow> (case map_of d k of None \<Rightarrow> Inl (KeyError k) | Some x \<Rightarrow> Inr x)
      | _ \<Rightarrow> Inl TypeError)"

text \<open>\<open>v.get(k, default)\<close>: \<open>AttributeError\<close> when \<open>v\<close> is no dict.\<close>

definition dict_get :: "pyval \<Rightarrow> string \<Rightarrow> pyval \<Rightarrow> py_exn + pyval" where
  "dict_get v k dflt =
     (case v of
        Dict d \<Rightarrow> Inr (case map_of d k of None \<Rightarrow> dflt | Some x \<Rightarrow> x)
      | _ \<Rightarrow> Inl AttributeError)"

text \<open>
  What \<open>for x in v\<close> iterates over: the elements of a list, the keys of a dict, the
  characters of a string; \<open>None\<close> is not iterable.
\<close>

definition py_iter :: "pyval \<Rightarrow> py_exn + pyval list" where
  "py_iter v =
     (case v of
        PList xs \<Rightarrow> Inr xs
      | Dict d \<Rightarrow> Inr (map (\<lambda>kv. Str (fst kv)) d)
      | Str s \<Rightarrow> Inr (map (\<lambda>c. Str [c]) s)
      | PyNone \<Rightarrow> Inl TypeError)"

section \<open>The \<open>datetime\<close> constructor and \<open>strptime\<close>\<close>

definition is_leap :: "nat \<Rightarrow> bool" where
  "is_leap y \<longleftrightarrow> y mod 4 = 0 \<and> (y mod 100 \<noteq> 0 \<or> y mod 400 = 0)"

definition days_before_year :: "nat \<Rightarrow> nat" where
  "days_before_year year =
     (let y = year - 1 in y * 365 + y div 4 - y div 100 + y div 400)"

definition days_in_month :: "nat \<Rightarrow> nat \<Rightarrow> nat" where
  "days_in_month year month =
     (if month = 2 \<and> is_leap year then 29
      else [0, 31, 28, 31, 30, 31, 30, 31, 31, 30, 31, 30, 31] ! month)"

definition days_before_month :: "nat \<Rightarrow> nat \<Rightarrow> nat" where
  "days_before_month year month =
     [0, 0, 31, 59, 90, 120, 151, 181, 212, 243, 273, 304, 334] ! month
       + (if month > 2 \<and> is_leap year then 1 else 0)"

text \<open>The proleptic ordinal of a date: 0001-01-01 is day 1.\<close>

definition ymd2ord :: "nat \<Rightarrow> nat \<Rightarrow> nat \<Rightarrow> nat" where
  "ymd2ord year month day = days_before_year year + days_before_month year month + day"

text \<open>The instant of valid fields, in microseconds since 0001-01-01T00:00:00.\<close>

definition datetime_us :: "nat \<Rightarrow> nat \<Rightarrow> nat \<Rightarrow> nat \<Rightarrow> nat \<Rightarrow> nat \<Rightarrow> nat \<Rightarrow> datetime" where
  "datetime_us year month day hour minute second microsecond =
     ((int (ymd2ord year month day) - 1) * 86400
        + int hour * 3600 + int minute * 60 + int second) * 1000000 + int microsecond"

text \<open>
  \<open>datetime(year, month, day, hour, minute, second, microsecond)\<close>: \<open>ValueError\<close> when
  a field is out of range. The arguments \<open>strptime\<close> passes are read from digits, so
  they are natural numbers.
\<close>

definition datetime :: "nat \<Rightarrow> nat \<Rightarrow> nat \<Rightarrow> nat \<Rightarrow> nat \<Rightarrow> nat \<Rightarrow> nat \<Rightarrow> py_exn + datetime" where
  "datetime year month day hour minute second microsecond =
     (if 1 \<le> year \<and> year \<le> 9999 \<and> 1 \<le> month \<and> month \<le> 12
         \<and> 1 \<le> day \<and> day \<le> days_in_month year month
         \<and> hour \<le> 23 \<and> minute \<le> 59 \<and> second \<le> 59 \<and> microsecond \<le> 999999
      then Inr (datetime_us year month day hour minute second microsecond)
      else Inl (ValueError ''datetime''))"

text \<open>
  \<open>datetime.strptime(s, '%Y-%m-%dT%H:%M:%SZ')\<close>. The library turns the format into the
  regular expression

  \<^verbatim>\<open>(?P<Y>\d\d\d\d)-(?P<m>1[0-2]|0[1-9]|[1-9])-(?P<d>3[0-1]|[1-2]\d|0[1-9]|[1-9]| [1-9])T\<close>
  \<^verbatim>\<open>(?P<H>2[0-3]|[0-1]\d|\d):(?P<M>[0-5]\d|\d):(?P<S>6[0-1]|[0-5]\d|\d)Z\<close>

  matched at the start of \<open>s\<close> ignoring case, and rejects text left after the match.
  No group can match a separator, so a match cuts \<open>s\<close> at the separators in one way
  only: \<open>split_at\<close> cuts at the next separator and \<open>re_Y\<close> ... \<open>re_S\<close> decide
  whether the text of a field is in the language of its group.
\<close>

fun split_at :: "(char \<Rightarrow> bool) \<Rightarrow> string \<Rightarrow> (string \<times> string) option" where
  "split_at sep [] = None"
| "split_at sep (c # cs) =
     (if sep c then Some ([], cs)
      else (case split_at sep cs of None \<Rightarrow> None | Some (a, b) \<Rightarrow> Some (c # a, b)))"

definition strptime_fields ::
  "string \<Rightarrow> (string \<times> string \<times> string \<times> string \<times> string \<times> string) option" where
  "strptime_fields s =
     (case split_at (\<lambda>c. c = CHR ''-'') s of None \<Rightarrow> None | Some (Y, r1) \<Rightarrow>
      case split_at (\<lambda>c. c = CHR ''-'') r1 of None \<Rightarrow> None | Some (m, r2) \<Rightarrow>
      case split_at (\<lambda>c. c = CHR ''T'' \<or> c = CHR ''t'') r2 of None \<Rightarrow> None | Some (d, r3) \<Rightarrow>
      case split_at (\<lambda>c. c = CHR '':'') r3 of None \<Rightarrow> None | Some (H, r4) \<Rightarrow>
      case split_at (\<lambda>c. c = CHR '':'') r4 of None \<Rightarrow> None | Some (M, r5) \<Rightarrow>
      case split_at (\<lambda>c. c = CHR ''Z'' \<or> c = CHR ''z'') r5 of None \<Rightarrow> None | Some (S, r6) \<Rightarrow>
      if r6 = [] then Some (Y, m, d, H, M, S) else None)"

definition dv :: "char \<Rightarrow> nat" where
  "dv c = of_char c - 48"

definition re_Y :: "string \<Rightarrow> bool" where
  "re_Y t \<longleftrightarrow> length t = 4 \<and> list_all is_digit t"

definition re_m :: "string \<Rightarrow> bool" where
  "re_m t =
     (case t of
        [a] \<Rightarrow> is_digit a \<and> 1 \<le> dv a
      | [a, b] \<Rightarrow> is_digit a \<and> is_digit b \<and> ((dv a = 1 \<and> dv b \<le> 2) \<or> (dv a = 0 \<and> 1 \<le> dv b))
      | _ \<Rightarrow> False)"

definition re_d :: "string \<Rightarrow> bool" where
  "re_d t =
     (case t of
        [a] \<Rightarrow> is_digit a \<and> 1 \<le> dv a
      | [a, b] \<Rightarrow> is_digit b \<and>
          ((is_digit a \<and> ((dv a = 3 \<and> dv b \<le> 1) \<or> dv a = 1 \<or> dv a = 2 \<or> (dv a = 0 \<and> 1 \<le> dv b)))
           \<or> (a = CHR '' '' \<and> 1 \<le> dv b))
      | _ \<Rightarrow> False)"

definition re_H :: "string \<Rightarrow> bool" where
  "re_H t =
     (case t of
        [a] \<Rightarrow> is_digit a
      | [a, b] \<Rightarrow> is_digit a \<and> is_digit b \<and> ((dv a = 2 \<and> dv b \<le> 3) \<or> dv a \<le> 1)
      | _ \<Rightarrow> False)"

definition re_M :: "string \<Rightarrow> bool" where
  "re_M t =
     (case t of
        [a] \<Rightarrow> is_digit a
      | [a, b] \<Rightarrow> is_digit a \<and> is_digit b \<and> dv a \<le> 5
      | _ \<Rightarrow> False)"

definition re_S :: "string \<Rightarrow> bool" where
  "re_S t =
     (case t of
        [a] \<Rightarrow> is_digit a
      | [a, b] \<Rightarrow> is_digit a \<and> is_digit b \<and> ((dv a = 6 \<and> dv b \<le> 1) \<or> dv a \<le> 5)
      | _ \<Rightarrow> False)"

text \<open>\<open>int\<close> of the text of a field: its digits, after the blank a day may start with.\<close>

definition field_value :: "string \<Rightarrow> nat" where
  "field_value t = foldl (\<lambda>acc c. acc * 10 + dv c) 0 (dropWhile (\<lambda>c. c = CHR '' '') t)"

definition strptime :: "string \<Rightarrow> py_exn + datetime" where
  "strptime s =
     (case strptime_fields s of
        None \<Rightarrow> Inl (ValueError ''strptime'')
      | Some (Y, m, d, H, M, S) \<Rightarrow>
          if re_Y Y \<and> re_m m \<and> re_d d \<and> re_H H \<and> re_M M \<and> re_S S then
            (case datetime (field_value Y) (field_value m) (field_value d)
                    (field_value H) (field_value M) (field_value S) 0 of
               Inl e \<Rightarrow> Inl (ValueError ''strptime'')
             | Inr t \<Rightarrow> Inr t)
          else Inl (ValueError ''strptime''))"

section \<open>The date-range filter\<close>

text \<open>
  The publish time the loop of \<open>filter_videos_by_date_range\<close> computes for one video
  (its local \<open>publish_date\<close>). \<open>now\<close> is the value of \<open>datetime.now()\<close>, frozen for
  the call.
\<close>

definition publish_date :: "datetime \<Rightarrow> bool \<Rightarrow> pyval \<Rightarrow> py_exn + datetime" where
  "publish_date now use_api video =
     (if use_api then
        bind_exn (subscript video ''snippet'') (\<lambda>snippet.
        bind_exn (subscript snippet ''publishedAt'') (\<lambda>p.
          case p of Str s \<Rightarrow> strptime s | _ \<Rightarrow> Inl TypeError))
      else
        bind_exn (dict_get video ''publishedTime'' (Str [])) (parse_relative_time now))"

text \<open>The loop: \<open>filtered_videos\<close> is the list built so far.\<close>

fun filter_loop ::
  "datetime \<Rightarrow> datetime \<Rightarrow> datetime \<Rightarrow> bool \<Rightarrow> pyval list \<Rightarrow> pyval list \<Rightarrow> py_exn + pyval list" where
  "filter_loop now start_date end_date use_api [] filtered_videos = Inr filtered_videos"
| "filter_loop now start_date end_date use_api (video # rest) filtered_videos =
     (case publish_date now use_api video of
        Inl e \<Rightarrow> Inl e
      | Inr t \<Rightarrow>
          filter_loop now start_date end_date use_api rest
            (if start_date \<le> t \<and> t \<le> end_date then filtered_videos @ [video]
             else filtered_videos))"

definition filter_videos_by_date_range ::
  "datetime \<Rightarrow> pyval \<Rightarrow> datetime \<Rightarrow> datetime \<Rightarrow> bool \<Rightarrow> py_exn + pyval list" where
  "filter_videos_by_date_range now videos start_date end_date use_api =
     bind_exn (py_iter videos) (\<lambda>vs. filter_loop now start_date end_date use_api vs [])"

section \<open>Specification-side vocabulary for the resolver\<close>

datatype unit = Hour | Day | Week | Month | Year

definition unit_name :: "unit \<Rightarrow> string" where
  "unit_name u = (case u of Hour \<Rightarrow> ''hour'' | Day \<Rightarrow> ''day'' | Week \<Rightarrow> ''week''
     | Month \<Rightarrow> ''month'' | Year \<Rightarrow> ''year'')"

definition unit_us :: "unit \<Rightarrow> int" where
  "unit_us u = (case u of Hour \<Rightarrow> 3600000000 | Day \<Rightarrow> us_per_day | Week \<Rightarrow> 7 * us_per_day
     | Month \<Rightarrow> 30 * us_per_day | Year \<Rightarrow> 365 * us_per_day)"

definition match_unit :: "string \<Rightarrow> unit option" where
  "match_unit tok =
     (if str_in ''hour'' tok then Some Hour
      else if str_in ''day'' tok then Some Day
      else if str_in ''week'' tok then Some Week
      else if str_in ''month'' tok then Some Month
      else if str_in ''year'' tok then Some Year
      else None)"

definition digit_char :: "nat \<Rightarrow> char" where
  "digit_char d = ''0123456789'' ! d"

fun dec :: "nat \<Rightarrow> string" where
  "dec n = (if n < 10 then [digit_char n] else dec (n div 10) @ [digit_char (n mod 10)])"

declare dec.simps [simp del]

definition phrase :: "nat \<Rightarrow> unit \<Rightarrow> bool \<Rightarrow> string" where
  "phrase n u plural = dec n @ '' '' @ unit_name u @ (if plural then ''s'' else []) @ '' ago''"


definition unit_delta :: "unit \<Rightarrow> int \<Rightarrow> py_exn + timedelta" where
  "unit_delta u v = (case u of Hour \<Rightarrow> timedelta 0 v 0 | Day \<Rightarrow> timedelta v 0 0
     | Week \<Rightarrow> timedelta 0 0 v | Month \<Rightarrow> timedelta (v * 30) 0 0
     | Year \<Rightarrow> timedelta (v * 365) 0 0)"


text \<open>
  The ISO-8601 text \<open>YYYY-MM-DDTHH:MM:SSZ\<close> of a timestamp given by its fields, every
  field padded with zeros to its width.
\<close>

definition pad2 :: "nat \<Rightarrow> string" where
  "pad2 n = [digit_char (n div 10 mod 10), digit_char (n mod 10)]"

definition pad4 :: "nat \<Rightarrow> string" where
  "pad4 n = [digit_char (n div 1000 mod 10), digit_char (n div 100 mod 10),
     digit_char (n div 10 mod 10), digit_char (n mod 10)]"

definition iso8601 :: "nat \<Rightarrow> nat \<Rightarrow> nat \<Rightarrow> nat \<Rightarrow> nat \<Rightarrow> nat \<Rightarrow> string" where
  "iso8601 year month day hour minute second =
     pad4 year @ ''-'' @ pad2 month @ ''-'' @ pad2 day @ ''T''
       @ pad2 hour @ '':'' @ pad2 minute @ '':'' @ pad2 second @ ''Z''"

text \<open>Whether a video is in the window, as the specification words it.\<close>

definition in_window :: "datetime \<Rightarrow> datetime \<Rightarrow> datetime \<Rightarrow> bool \<Rightarrow> pyval \<Rightarrow> bool" where
  "in_window now start_date end_date use_api video =
     (case publish_date now use_api video of
        Inl e \<Rightarrow> False
      | Inr t \<Rightarrow> start_date \<le> t \<and> t \<le> end_date)"

text \<open>Whether the publish time of a video resolves, that is, computing it raises nothing.\<close>

definition resolves :: "datetime \<Rightarrow> bool \<Rightarrow> pyval \<Rightarrow> bool" where
  "resolves now use_api video =
     (case publish_date now use_api video of Inl e \<Rightarrow> False | Inr t \<Rightarrow> True)"

section \<open>Properties of the resolver\<close>

lemma digit_char_props:
  assumes "d < 10"
  shows "is_digit (digit_char d) \<and> digit_value (digit_char d) = int d"
proof -
  from assms have "d \<in> {0,1,2,3,4,5,6,7,8,9}" by auto
  then show ?thesis by (auto simp: digit_char_def is_digit_def digit_value_def)
qed

lemma is_digit_digit_char: "d < 10 \<Longrightarrow> is_digit (digit_char d)"
  using digit_char_props by blast

lemma digit_value_digit_char: "d < 10 \<Longrightarrow> digit_value (digit_char d) = int d"
  using digit_char_props by blast

lemma is_digit_not_space: "is_digit c \<Longrightarrow> \<not> is_space c"
  by (auto simp: is_digit_def is_space_def)

lemma dec_digits: "\<forall>c \<in> set (dec n). is_digit c"
proof (induction n rule: dec.induct)
  case (1 n)
  show ?case
  proof (cases "n < 10")
    case True
    then show ?thesis by (subst dec.simps) (simp add: is_digit_digit_char)
  next
    case False
    with 1 show ?thesis by (subst dec.simps) (auto simp: is_digit_digit_char)
  qed
qed

lemma dec_nonempty: "dec n \<noteq> []"
  by (subst dec.simps) simp

lemma int_digits_append:
  "\<forall>c \<in> set xs. is_digit c \<Longrightarrow>
   int_digits acc k (xs @ ys) =
     (case int_digits acc k xs of None \<Rightarrow> None | Some (v, k') \<Rightarrow> int_digits v k' ys)"
  by (induction xs arbitrary: acc k) auto

lemma int_digits_dec:
  "int_digits acc k (dec n) = Some (acc * 10 ^ length (dec n) + int n, k + length (dec n))"
proof (induction n arbitrary: acc k rule: dec.induct)
  case (1 n)
  show ?case
  proof (cases "n < 10")
    case True
    then show ?thesis
      by (subst (1 2 3) dec.simps) (simp add: is_digit_digit_char digit_value_digit_char)
  next
    case False
    have d: "n mod 10 < 10" by simp
    have n: "int n = int (n div 10) * 10 + int (n mod 10)" by presburger
    have "int_digits acc k (dec (n div 10) @ [digit_char (n mod 10)]) =
      Some (acc * 10 ^ (length (dec (n div 10)) + 1) + int n, k + (length (dec (n div 10)) + 1))"
      using False d
      by (simp add: int_digits_append dec_digits "1.IH" is_digit_digit_char digit_value_digit_char n algebra_simps)
    then show ?thesis using False by (subst (1 2 3) dec.simps) simp
  qed
qed

lemma length_dec: "n < 10 ^ k \<Longrightarrow> 0 < k \<Longrightarrow> length (dec n) \<le> k"
proof (induction n arbitrary: k rule: dec.induct)
  case (1 n)
  show ?case
  proof (cases "n < 10")
    case True
    then show ?thesis using 1(3) by (subst dec.simps) simp
  next
    case False
    then obtain j where k: "k = Suc j" using 1(3) by (cases k) auto
    have "0 < j" using False 1(2) k by (cases j) auto
    moreover have "n div 10 < 10 ^ j" using 1(2) k by (simp add: less_mult_imp_div_less)
    ultimately have "length (dec (n div 10)) \<le> j" using 1(1) False by blast
    then show ?thesis using False k by (subst dec.simps) simp
  qed
qed


lemma py_int_dec: "n < 10 ^ 4300 \<Longrightarrow> py_int (dec n) = Some (int n)"
proof -
  assume a: "n < 10 ^ 4300"
  have l: "length (dec n) \<le> 4300" using length_dec[OF a] by simp
  obtain c cs where cs: "dec n = c # cs" using dec_nonempty by (cases "dec n") auto
  have dg: "is_digit c" using dec_digits[of n] cs by simp
  then have "c \<noteq> CHR ''-''" "c \<noteq> CHR ''+''" by (auto simp: is_digit_def)
  then have "py_int (dec n) = int_unsigned (dec n)" using cs by (simp add: py_int_def)
  also have "\<dots> = Some (int n)" using dg cs l int_digits_dec[of 0 0 n]
    by (simp add: int_unsigned_def int_max_str_digits_def)
  finally show ?thesis .
qed

lemma split_from_token:
  "\<forall>c \<in> set tok. \<not> is_space c \<Longrightarrow> split_from cur (tok @ rest) = split_from (cur @ tok) rest"
  by (induction tok arbitrary: cur) auto

lemma split_token_space:
  "\<forall>c \<in> set tok. \<not> is_space c \<Longrightarrow> tok \<noteq> [] \<Longrightarrow> is_space sp \<Longrightarrow>
   split (tok @ sp # rest) = tok # split rest"
  by (simp add: split_def split_from_token)


lemma datetime_sub_in_range:
  "datetime_ok (t - td) \<Longrightarrow> datetime_sub t td = Inr (t - td)"
  by (simp add: datetime_sub_def)

lemma timedelta_in_range:
  assumes "datetime_ok now" and "datetime_ok (now - ((w * 7 + d) * 24 + h) * 3600000000)"
  shows "timedelta d h w = Inr (((w * 7 + d) * 24 + h) * 3600000000)"
proof -
  define us where "us = ((w * 7 + d) * 24 + h) * 3600000000"
  have 1: "- (3652059 * 86400000000) < us" "us < 3652059 * 86400000000"
    using assms by (simp_all add: datetime_ok_def max_ordinal_def us_per_day_def us_def)
  have "- 999999999 \<le> us div 86400000000 \<and> us div 86400000000 \<le> 999999999"
    using 1 by linarith
  then show ?thesis
    by (simp add: timedelta_def us_def us_per_day_def Let_def)
qed

lemma relative_time_unit:
  assumes "split s = t0 # t1 # rest" and "py_int t0 = Some v"
    and "match_unit (lower t1) = Some u"
  shows "relative_time now s = bind_exn (unit_delta u v) (datetime_sub now)"
  using assms
  by (cases u) (auto simp: relative_time_def match_unit_def unit_delta_def Let_def split: if_splits)

lemma timedelta_sub_in_range:
  assumes "datetime_ok now" and "datetime_ok (now - x)"
    and "x = ((w * 7 + d) * 24 + h) * 3600000000"
  shows "bind_exn (timedelta d h w) (datetime_sub now) = Inr (now - x)"
  using assms timedelta_in_range[of now w d h]
  by (simp add: bind_exn_def datetime_sub_def)

lemma unit_delta_in_range:
  assumes "datetime_ok now" and "datetime_ok (now - v * unit_us u)"
  shows "bind_exn (unit_delta u v) (datetime_sub now) = Inr (now - v * unit_us u)"
proof (cases u)
  case Hour
  have "v * unit_us u = ((0 * 7 + 0) * 24 + v) * 3600000000"
    using Hour by (simp add: unit_us_def)
  from timedelta_sub_in_range[OF assms this] show ?thesis
    using Hour by (simp add: unit_delta_def)
next
  case Day
  have "v * unit_us u = ((0 * 7 + v) * 24 + 0) * 3600000000"
    using Day by (simp add: unit_us_def us_per_day_def)
  from timedelta_sub_in_range[OF assms this] show ?thesis
    using Day by (simp add: unit_delta_def)
next
  case Week
  have "v * unit_us u = ((v * 7 + 0) * 24 + 0) * 3600000000"
    using Week by (simp add: unit_us_def us_per_day_def)
  from timedelta_sub_in_range[OF assms this] show ?thesis
    using Week by (simp add: unit_delta_def)
next
  case Month
  have "v * unit_us u = ((0 * 7 + v * 30) * 24 + 0) * 3600000000"
    using Month by (simp add: unit_us_def us_per_day_def)
  from timedelta_sub_in_range[OF assms this] show ?thesis
    using Month by (simp add: unit_delta_def)
next
  case Year
  have "v * unit_us u = ((0 * 7 + v * 365) * 24 + 0) * 3600000000"
    using Year by (simp add: unit_us_def us_per_day_def)
  from timedelta_sub_in_range[OF assms this] show ?thesis
    using Year by (simp add: unit_delta_def)
qed

lemma parse_relative_time_Str:
  "parse_relative_time now (Str s) =
     (if s = [] \<or> str_in ''Streamed'' s then Inr now else relative_time now s)"
  by (simp add: parse_relative_time_def py_not_def py_contains_def bind_exn_def)

lemma resolve_by_unit:
  assumes "\<not> str_in ''Streamed'' s"
    and "split s = t0 # t1 # rest"
    and "py_int t0 = Some n"
    and "match_unit (lower t1) = Some u"
    and "datetime_ok now" and "datetime_ok (now - n * unit_us u)"
  shows "parse_relative_time now (Str s) = Inr (now - n * unit_us u)"
proof -
  have "s \<noteq> []" using assms(2) by (auto simp: split_def)
  then show ?thesis
    using assms by (simp add: parse_relative_time_Str relative_time_unit unit_delta_in_range)
qed

lemma str_in_skip:
  "\<forall>c \<in> set xs. c \<noteq> p \<Longrightarrow> str_in (p # ps) (xs @ ys) = str_in (p # ps) ys"
  by (induction xs) auto

lemma is_digit_not_S: "is_digit c \<Longrightarrow> c \<noteq> CHR ''S''"
  by (auto simp: is_digit_def)

lemma dec_no_S: "\<forall>c \<in> set (dec n). c \<noteq> CHR ''S''"
  using dec_digits[of n] is_digit_not_S by blast

lemma dec_no_space: "\<forall>c \<in> set (dec n). \<not> is_space c"
  using dec_digits[of n] is_digit_not_space by blast

lemma phrase_not_streamed: "\<not> str_in ''Streamed'' (phrase n u plural)"
  unfolding phrase_def
  by (cases u; cases plural) (simp_all add: str_in_skip[OF dec_no_S] unit_name_def)

lemma split_phrase:
  "split (phrase n u plural) =
     [dec n, unit_name u @ (if plural then ''s'' else []), ''ago'']"
proof -
  have sp: "is_space CHR '' ''" by (simp add: is_space_def)
  have "split (phrase n u plural) =
     dec n # split (unit_name u @ (if plural then ''s'' else []) @ '' ago'')"
    unfolding phrase_def using split_token_space[OF dec_no_space dec_nonempty sp] by simp
  also have "split (unit_name u @ (if plural then ''s'' else []) @ '' ago'') =
     [unit_name u @ (if plural then ''s'' else []), ''ago'']"
    by (cases u; cases plural) (simp_all add: unit_name_def split_def is_space_def)
  finally show ?thesis .
qed

lemma match_unit_name:
  "match_unit (lower (unit_name u @ (if plural then ''s'' else []))) = Some u"
  by (cases u; cases plural)
     (simp_all add: unit_name_def match_unit_def lower_def lower_char_def)

lemma unit_us_pos: "1 \<le> unit_us u"
  by (cases u) (simp_all add: unit_us_def us_per_day_def)

lemma resolver_overflow_days:
  assumes "datetime_ok now"
  shows "parse_relative_time now (Str ''4000000 days ago'') = Inl OverflowError"
proof -
  have "relative_time now ''4000000 days ago'' =
      bind_exn (timedelta 4000000 0 0) (datetime_sub now)"
    by (simp add: relative_time_def split_def is_space_def py_int_def int_unsigned_def
        is_digit_def digit_value_def int_max_str_digits_def lower_def lower_char_def)
  moreover have "\<not> datetime_ok (now - 4000000 * 24 * 3600000000)"
    using assms by (simp add: datetime_ok_def max_ordinal_def us_per_day_def)
  ultimately show ?thesis
    by (simp add: parse_relative_time_Str timedelta_def us_per_day_def bind_exn_def
        datetime_sub_def)
qed

lemma nat_below_digit_limit:
  assumes "int n < 315537897600000000"
  shows "n < 10 ^ 4300"
proof -
  have "n < 315537897600000000" using assms by linarith
  also have "(315537897600000000::nat) \<le> 10 ^ 18" by simp
  also have "(10::nat) ^ 18 \<le> 10 ^ 4300" by (rule power_increasing) simp_all
  finally show ?thesis .
qed

lemma resolve_phrase:
  assumes "datetime_ok now" and "datetime_ok (now - int n * unit_us u)"
  shows "parse_relative_time now (Str (phrase n u plural)) = Inr (now - int n * unit_us u)"
proof -
  have "int n * 1 \<le> int n * unit_us u"
    by (rule mult_left_mono) (simp_all add: unit_us_pos)
  moreover have "int n * unit_us u \<le> now" "now < 3652059 * 86400000000"
    using assms by (simp_all add: datetime_ok_def max_ordinal_def us_per_day_def)
  ultimately have "int n < 315537897600000000" by linarith
  then have "py_int (dec n) = Some (int n)"
    by (intro py_int_dec nat_below_digit_limit)
  then show ?thesis
    using resolve_by_unit[OF phrase_not_streamed split_phrase _ match_unit_name assms]
    by simp
qed

lemma resolver_streamed:
  "str_in ''Streamed'' s \<Longrightarrow> parse_relative_time now (Str s) = Inr now"
  by (simp add: parse_relative_time_Str)

lemma resolver_empty: "parse_relative_time now (Str []) = Inr now"
  by (simp add: parse_relative_time_Str)

lemma resolver_missing: "parse_relative_time now PyNone = Inr now"
  by (simp add: parse_relative_time_def py_not_def)

lemma resolver_short:
  "length (split s) < 2 \<Longrightarrow> parse_relative_time now (Str s) = Inr now"
  by (simp add: parse_relative_time_Str relative_time_def)

lemma resolver_not_int:
  "split s = t0 # rest \<Longrightarrow> py_int t0 = None \<Longrightarrow> parse_relative_time now (Str s) = Inr now"
  by (simp add: parse_relative_time_Str relative_time_def Let_def)

lemma resolver_unknown_unit:
  "split s = t0 # t1 # rest \<Longrightarrow> match_unit (lower t1) = None \<Longrightarrow>
   parse_relative_time now (Str s) = Inr now"
  by (auto simp: parse_relative_time_Str relative_time_def match_unit_def Let_def
      split: option.splits if_splits)

lemma timedelta_error: "timedelta d h w = Inl e \<Longrightarrow> e = OverflowError"
  by (auto simp: timedelta_def Let_def split: if_splits)

lemma datetime_sub_error: "datetime_sub t td = Inl e \<Longrightarrow> e = OverflowError"
  by (auto simp: datetime_sub_def split: if_splits)

lemma bind_sub_error:
  "bind_exn (timedelta d h w) (datetime_sub t) = Inl e \<Longrightarrow> e = OverflowError"
  by (cases "timedelta d h w") (auto simp: bind_exn_def dest: timedelta_error datetime_sub_error)

lemma resolver_only_overflow:
  "parse_relative_time now (Str s) = Inl e \<Longrightarrow> e = OverflowError"
  by (auto simp: parse_relative_time_Str relative_time_def Let_def
      split: if_splits option.splits dest: bind_sub_error)

section \<open>Properties of \<open>strptime\<close> and of the date-range filter\<close>

lemma filter_loop_resolved:
  "\<forall>v \<in> set vs. \<exists>t. publish_date now use_api v = Inr t \<Longrightarrow>
   filter_loop now s e use_api vs acc = Inr (acc @ filter (in_window now s e use_api) vs)"
proof (induction vs arbitrary: acc)
  case Nil
  then show ?case by simp
next
  case (Cons v vs)
  then obtain t where t: "publish_date now use_api v = Inr t" by auto
  have "filter_loop now s e use_api vs (if s \<le> t \<and> t \<le> e then acc @ [v] else acc) =
        Inr ((if s \<le> t \<and> t \<le> e then acc @ [v] else acc) @ filter (in_window now s e use_api) vs)"
    using Cons by simp
  moreover have "in_window now s e use_api v = (s \<le> t \<and> t \<le> e)"
    using t by (simp add: in_window_def)
  ultimately show ?case using t by simp
qed

lemma filter_loop_error:
  "publish_date now use_api v = Inl err \<Longrightarrow>
   \<forall>x \<in> set pre. \<exists>t. publish_date now use_api x = Inr t \<Longrightarrow>
   filter_loop now s e use_api (pre @ v # post) acc = Inl err"
proof (induction pre arbitrary: acc)
  case Nil
  then show ?case by simp
next
  case (Cons x pre)
  then obtain t where t: "publish_date now use_api x = Inr t" by auto
  show ?case using Cons t by simp
qed

lemma digit_char_dv: "d < 10 \<Longrightarrow> dv (digit_char d) = d"
proof -
  assume "d < 10"
  then have "d \<in> {0,1,2,3,4,5,6,7,8,9}" by auto
  then show ?thesis by (auto simp: digit_char_def dv_def)
qed

lemma is_digit_not_sep:
  "is_digit c \<Longrightarrow> c \<noteq> CHR ''-'' \<and> c \<noteq> CHR ''T'' \<and> c \<noteq> CHR ''t'' \<and> c \<noteq> CHR '':''
     \<and> c \<noteq> CHR ''Z'' \<and> c \<noteq> CHR ''z'' \<and> c \<noteq> CHR '' ''"
  by (auto simp: is_digit_def)

lemma split_at_sep:
  "\<forall>x \<in> set xs. \<not> sep x \<Longrightarrow> sep c \<Longrightarrow> split_at sep (xs @ c # rest) = Some (xs, rest)"
  by (induction xs) auto

lemma pad2_digits: "\<forall>c \<in> set (pad2 n). is_digit c"
  by (simp add: pad2_def is_digit_digit_char)

lemma pad4_digits: "\<forall>c \<in> set (pad4 n). is_digit c"
  by (simp add: pad4_def is_digit_digit_char)

lemma strptime_fields_iso:
  "strptime_fields (iso8601 y m d H M S) = Some (pad4 y, pad2 m, pad2 d, pad2 H, pad2 M, pad2 S)"
proof -
  have a: "\<And>n. \<forall>c \<in> set (pad2 n). \<not> (c = CHR ''-'')"
          "\<And>n. \<forall>c \<in> set (pad4 n). \<not> (c = CHR ''-'')"
          "\<And>n. \<forall>c \<in> set (pad2 n). \<not> (c = CHR ''T'' \<or> c = CHR ''t'')"
          "\<And>n. \<forall>c \<in> set (pad2 n). \<not> (c = CHR '':'')"
          "\<And>n. \<forall>c \<in> set (pad2 n). \<not> (c = CHR ''Z'' \<or> c = CHR ''z'')"
    using pad2_digits pad4_digits is_digit_not_sep by blast+
  show ?thesis
    unfolding strptime_fields_def iso8601_def
    by (simp add: split_at_sep[OF a(1)] split_at_sep[OF a(2)] split_at_sep[OF a(3)]
        split_at_sep[OF a(4)] split_at_sep[OF a(5)])
qed

lemma field_value_pad2: "n < 100 \<Longrightarrow> field_value (pad2 n) = n"
proof -
  assume n: "n < 100"
  have ns: "digit_char (n div 10 mod 10) \<noteq> CHR '' ''"
    using is_digit_not_sep[OF is_digit_digit_char[of "n div 10 mod 10"]] by simp
  have "n div 10 mod 10 = n div 10" using n by simp
  then show ?thesis using ns
    by (simp add: field_value_def pad2_def digit_char_dv)
qed

lemma four_digits:
  assumes "n < 10000"
  shows "((n div 1000 mod 10 * 10 + n div 100 mod 10) * 10 + n div 10 mod 10) * 10 + n mod 10 = (n::nat)"
proof -
  have 1: "n div 1000 mod 10 = n div 1000" using assms by simp
  have d1: "n div 1000 = n div 100 div 10" "n div 100 = n div 10 div 10"
    by (simp_all add: div_mult2_eq[symmetric])
  have 2: "n div 1000 * 10 + n div 100 mod 10 = n div 100"
    unfolding d1(1) using div_mult_mod_eq[of "n div 100" 10] by simp
  have 3: "n div 100 * 10 + n div 10 mod 10 = n div 10"
    unfolding d1(2) using div_mult_mod_eq[of "n div 10" 10] by simp
  have 4: "n div 10 * 10 + n mod 10 = n"
    using div_mult_mod_eq[of n 10] by simp
  show ?thesis by (simp only: 1 2 3 4)
qed

lemma field_value_pad4: "n < 10000 \<Longrightarrow> field_value (pad4 n) = n"
proof -
  assume n: "n < 10000"
  have ns: "digit_char (n div 1000 mod 10) \<noteq> CHR '' ''"
    using is_digit_not_sep[OF is_digit_digit_char[of "n div 1000 mod 10"]] by simp
  have "field_value (pad4 n) =
     ((n div 1000 mod 10 * 10 + n div 100 mod 10) * 10 + n div 10 mod 10) * 10 + n mod 10"
    using ns by (simp add: field_value_def pad4_def digit_char_dv)
  then show ?thesis using four_digits[OF n] by (simp only:)
qed

lemma re_Y_pad4: "re_Y (pad4 n)"
  by (simp add: re_Y_def pad4_def is_digit_digit_char)

lemma re_m_pad2: "1 \<le> n \<Longrightarrow> n \<le> 12 \<Longrightarrow> re_m (pad2 n)"
  unfolding re_m_def pad2_def
  by (simp add: is_digit_digit_char digit_char_dv) presburger

lemma re_d_arith:
  assumes "1 \<le> n" and "n \<le> 31"
  shows "n div 10 mod 10 = 3 \<and> n mod 10 \<le> 1 \<or> n div 10 mod 10 = 1 \<or> n div 10 mod 10 = 2
      \<or> n div 10 mod 10 = 0 \<and> 1 \<le> n mod (10::nat)"
proof -
  define a where "a = n div 10"
  define b where "b = n mod 10"
  have n: "n = a * 10 + b" "b < 10" by (simp_all add: a_def b_def)
  have a: "a \<le> 3" using n assms by linarith
  then have m: "a mod 10 = a" by simp
  have "a = 3 \<and> b \<le> 1 \<or> a = 1 \<or> a = 2 \<or> a = 0 \<and> 1 \<le> b"
    using n assms by linarith
  then show ?thesis unfolding a_def[symmetric] b_def[symmetric] m .
qed

lemma re_d_pad2:
  assumes "1 \<le> n" and "n \<le> 31"
  shows "re_d (pad2 n)"
proof -
  have d: "is_digit (digit_char (n div 10 mod 10))" "is_digit (digit_char (n mod 10))"
    by (simp_all add: is_digit_digit_char)
  have v: "dv (digit_char (n div 10 mod 10)) = n div 10 mod 10"
    "dv (digit_char (n mod 10)) = n mod 10"
    by (simp_all add: digit_char_dv)
  have "re_d (pad2 n) = ((n div 10 mod 10 = 3 \<and> n mod 10 \<le> 1 \<or> n div 10 mod 10 = 1 \<or> n div 10 mod 10 = 2
      \<or> n div 10 mod 10 = 0 \<and> 1 \<le> n mod 10)
      \<or> digit_char (n div 10 mod 10) = CHR '' '' \<and> 1 \<le> n mod 10)"
    unfolding re_d_def pad2_def by (simp only: list.case d v simp_thms)
  then show ?thesis using re_d_arith[OF assms] by blast
qed

lemma re_H_pad2: "n \<le> 23 \<Longrightarrow> re_H (pad2 n)"
  unfolding re_H_def pad2_def
  by (simp add: is_digit_digit_char digit_char_dv) presburger

lemma re_M_pad2: "n \<le> 59 \<Longrightarrow> re_M (pad2 n)"
  unfolding re_M_def pad2_def
  by (simp add: is_digit_digit_char digit_char_dv)

lemma re_S_pad2: "n \<le> 59 \<Longrightarrow> re_S (pad2 n)"
  unfolding re_S_def pad2_def
  by (simp add: is_digit_digit_char digit_char_dv) presburger


lemma strptime_iso:
  assumes "datetime y m d H M S 0 = Inr t"
  shows "strptime (iso8601 y m d H M S) = Inr t"
proof -
  have r: "1 \<le> y" "y \<le> 9999" "1 \<le> m" "m \<le> 12" "1 \<le> d" "d \<le> days_in_month y m"
    "H \<le> 23" "M \<le> 59" "S \<le> 59"
    using assms by (auto simp: datetime_def split: if_splits)
  have "days_in_month y m \<le> 31"
    using r(3,4) by (auto simp: days_in_month_def nth_Cons' )
  then have d31: "d \<le> 31" using r(6) by simp
  have fv: "field_value (pad4 y) = y" "field_value (pad2 m) = m" "field_value (pad2 d) = d"
    "field_value (pad2 H) = H" "field_value (pad2 M) = M" "field_value (pad2 S) = S"
    using r d31 by (simp_all add: field_value_pad2 field_value_pad4)
  have re: "re_Y (pad4 y)" "re_m (pad2 m)" "re_d (pad2 d)" "re_H (pad2 H)" "re_M (pad2 M)"
    "re_S (pad2 S)"
    using r d31 by (simp_all add: re_Y_pad4 re_m_pad2 re_d_pad2 re_H_pad2 re_M_pad2 re_S_pad2)
  show ?thesis
    unfolding strptime_def strptime_fields_iso by (simp add: fv re assms)
qed

lemma filter_resolved:
  assumes "\<forall>v \<in> set vs. \<exists>t. publish_date now use_api v = Inr t"
  shows "filter_videos_by_date_range now (PList vs) start_date end_date use_api =
         Inr (filter (in_window now start_date end_date use_api) vs)"
  using filter_loop_resolved[OF assms, of start_date end_date "[]"]
  by (simp add: filter_videos_by_date_range_def py_iter_def bind_exn_def)

section \<open>Claims about the relative-time resolver\<close>

text \<open>
  Claim C5. The resolver is meant to be total and fail-open: whatever the input string,
  it returns an instant and never raises. The source catches only \<open>ValueError\<close>. A
  phrase whose offset leaves the range of \<open>datetime\<close> makes the subtraction raise
  \<open>OverflowError\<close>, which escapes: at every valid \<open>now\<close>, the input
  \<open>4000000 days ago\<close> raises instead of returning. (The fail-open cases the claim
  lists do return \<open>now\<close>: lemmas \<open>resolver_streamed\<close>, \<open>resolver_empty\<close>,
  \<open>resolver_short\<close>, \<open>resolver_not_int\<close>, \<open>resolver_unknown_unit\<close>; and
  \<open>OverflowError\<close> is the only exception a string input raises:
  \<open>resolver_only_overflow\<close>.)
\<close>

theorem resolver_overflow_escapes:
  assumes "datetime_ok now"
  shows "parse_relative_time now (Str ''4000000 days ago'') = Inl OverflowError"
  using assms by (rule resolver_overflow_days)

theorem resolver_overflow_escapes_witness:
  "datetime_ok 63839664000000000 \<and>
   parse_relative_time 63839664000000000 (Str ''4000000 days ago'') = Inl OverflowError"
proof -
  have h: "datetime_ok 63839664000000000"
    by (simp add: datetime_ok_def max_ordinal_def us_per_day_def)
  show ?thesis using h resolver_overflow_escapes[OF h] by simp
qed

text \<open>
  Claim C6, as stated: for every non-negative \<open>n\<close> the phrase \<open>n unit[s] ago\<close>
  resolves to \<open>now\<close> minus \<open>n\<close> units. It fails where the result is not a
  \<open>datetime\<close>: on 2024-01-01T00:00:00 the phrase \<open>3000 years ago\<close> raises.
\<close>

theorem resolver_relative_phrase_counterexample:
  "phrase 3000 Year True = ''3000 years ago'' \<and>
   parse_relative_time 63839664000000000 (Str ''3000 years ago'') = Inl OverflowError"
  by code_simp

text \<open>
  Claim C6, amended: for every non-negative \<open>n\<close> and every unit, if \<open>now\<close> minus
  \<open>n\<close> units (an hour, a day, a week, 30 days for a month, 365 days for a year) is
  still a \<open>datetime\<close>, then the phrase \<open>n unit ago\<close> and its plural
  \<open>n units ago\<close> resolve at the frozen \<open>now\<close> to exactly that instant.
\<close>

theorem resolver_relative_phrase:
  assumes "datetime_ok now" and "datetime_ok (now - int n * unit_us u)"
  shows "parse_relative_time now (Str (phrase n u plural)) = Inr (now - int n * unit_us u)"
  using assms by (rule resolve_phrase)

theorem resolver_relative_phrase_witness:
  "datetime_ok 63839664000000000 \<and>
   datetime_ok (63839664000000000 - int 3 * unit_us Week) \<and>
   phrase 3 Week True = ''3 weeks ago'' \<and>
   parse_relative_time 63839664000000000 (Str ''3 weeks ago'') = Inr 63837849600000000"
proof -
  have h: "datetime_ok 63839664000000000"
    "datetime_ok (63839664000000000 - int 3 * unit_us Week)"
    by code_simp+
  have p: "phrase 3 Week True = ''3 weeks ago''" by code_simp
  have v: "63839664000000000 - int 3 * unit_us Week = 63837849600000000"
    by (simp add: unit_us_def us_per_day_def)
  show ?thesis using h p v resolver_relative_phrase[OF h, of True] by simp
qed

text \<open>
  Claim C10, as stated: the resolver looks at nothing after the second token, so any input
  whose second token contains a unit name resolves as \<open>n\<close> of that unit before
  \<open>now\<close>. The first test of the source, \<open>'Streamed' in time_str\<close>, reads the whole
  string: \<open>3 weeks Streamed\<close> has the second token \<open>weeks\<close> and resolves to \<open>now\<close>.
\<close>

theorem resolver_unit_by_containment_counterexample:
  "split ''3 weeks Streamed'' = [''3'', ''weeks'', ''Streamed''] \<and>
   py_int ''3'' = Some 3 \<and> match_unit (lower ''weeks'') = Some Week \<and>
   parse_relative_time 63839664000000000 (Str ''3 weeks Streamed'') = Inr 63839664000000000 \<and>
   63839664000000000 \<noteq> 63839664000000000 - 3 * unit_us Week"
  by code_simp

text \<open>
  Claim C10, amended: for every input that does not contain \<open>Streamed\<close>, whose first
  whitespace token reads as the integer \<open>n\<close> and whose lowercased second token contains
  a unit name (the first of hour, day, week, month, year it contains decides), the
  resolver returns \<open>n\<close> of that unit before the frozen \<open>now\<close>, whatever tokens follow
  the second (no \<open>ago\<close> is needed), provided that instant is a \<open>datetime\<close>.
\<close>

theorem resolver_unit_by_containment:
  assumes "\<not> str_in ''Streamed'' s"
    and "split s = t0 # t1 # rest"
    and "py_int t0 = Some n"
    and "match_unit (lower t1) = Some u"
    and "datetime_ok now" and "datetime_ok (now - n * unit_us u)"
  shows "parse_relative_time now (Str s) = Inr (now - n * unit_us u)"
  using assms by (rule resolve_by_unit)

theorem resolver_unit_by_containment_witness:
  "\<not> str_in ''Streamed'' ''5 yesterday'' \<and>
   split ''5 yesterday'' = [''5'', ''yesterday''] \<and> py_int ''5'' = Some 5 \<and>
   match_unit (lower ''yesterday'') = Some Day \<and> datetime_ok 63839664000000000 \<and>
   datetime_ok (63839664000000000 - 5 * unit_us Day) \<and>
   parse_relative_time 63839664000000000 (Str ''5 yesterday'') =
     Inr (63839664000000000 - 5 * unit_us Day)"
proof -
  have h: "\<not> str_in ''Streamed'' ''5 yesterday''"
    "split ''5 yesterday'' = [''5'', ''yesterday'']" "py_int ''5'' = Some 5"
    "match_unit (lower ''yesterday'') = Some Day" "datetime_ok 63839664000000000"
    "datetime_ok (63839664000000000 - 5 * unit_us Day)"
    by code_simp+
  show ?thesis using h resolver_unit_by_containment[OF h] by simp
qed

end
